theory Spec2Isabelle
  imports Main "HOL-Library.Word" "HOL-Library.Code_Target_Numeral"
begin

unbundle bit_operations_syntax

section \<open>Bytes, errors and slice expressions\<close>

text \<open>
  The keystore of \<^verbatim>\<open>kp.go\<close> works on Go byte slices and Go strings. A byte is an
  8-bit word, a byte slice a list of bytes, a string a list of characters. Every slice
  the code takes comes fresh from \<^verbatim>\<open>make\<close> or from a decoder, so its capacity is taken
  to be its length.

  A Go \<^verbatim>\<open>error\<close> is modelled by its message. A run-time panic is a value of its own
  kind, so that a crash is never confused with a returned error.
\<close>

type_synonym byte = "8 word"
type_synonym bytes = "byte list"

datatype error = Error string | Panic string

text \<open>The slice expression \<^verbatim>\<open>s[lo:hi]\<close>: it panics out of range.\<close>

definition slice_expr :: "'a list \<Rightarrow> nat \<Rightarrow> nat \<Rightarrow> error + 'a list" where
  "slice_expr s lo hi =
     (if lo \<le> hi \<and> hi \<le> length s then Inr (take (hi - lo) (drop lo s))
      else Inl (Panic ''slice bounds out of range''))"

section \<open>The imported packages\<close>

text \<open>
  The code calls into packages that are not part of the repository: scrypt, AES in
  counter mode, SHA-3, the base-58 codec of \<^verbatim>\<open>common\<close>, and the key-pair generator of
  \<^verbatim>\<open>account2\<close>. What those packages compute is a parameter of the model:
  \<^item> \<open>scrypt_stream password salt N r p i\<close> is byte \<open>i\<close> of the scrypt output;
  \<^item> \<open>aes_ctr_stream key iv i\<close> is byte \<open>i\<close> of the AES-CTR key stream;
  \<^item> \<open>Sha3\<close> is \<^verbatim>\<open>common.Sha3\<close>;
  \<^item> \<open>EncodeBase58\<close> and \<open>DecodeBase58\<close> are the codec of \<^verbatim>\<open>common\<close>;
  \<^item> \<open>MarshalBinary uid\<close> is \<^verbatim>\<open>account2.NewKeyPair(uid)\<close> followed by
    \<^verbatim>\<open>pub.MarshalBinary()\<close>.
\<close>

record crypto =
  scrypt_stream :: "bytes \<Rightarrow> bytes \<Rightarrow> nat \<Rightarrow> nat \<Rightarrow> nat \<Rightarrow> nat \<Rightarrow> byte"
  aes_ctr_stream :: "bytes \<Rightarrow> bytes \<Rightarrow> nat \<Rightarrow> byte"
  Sha3 :: "bytes \<Rightarrow> bytes"
  EncodeBase58 :: "bytes \<Rightarrow> string"
  DecodeBase58 :: "string \<Rightarrow> bytes"
  MarshalBinary :: "string \<Rightarrow> error + bytes"

text \<open>
  \<^verbatim>\<open>scrypt.Key(password, salt, N, r, p, keyLen)\<close>: the package validates the cost
  parameters (on a 64-bit platform) and then returns exactly \<open>keyLen\<close> bytes.
\<close>

definition maxInt :: nat where
  "maxInt = 2 ^ 63 - 1"

definition scrypt_Key ::
  "crypto \<Rightarrow> bytes \<Rightarrow> bytes \<Rightarrow> nat \<Rightarrow> nat \<Rightarrow> nat \<Rightarrow> nat \<Rightarrow> error + bytes" where
  "scrypt_Key E password salt N r p keyLen =
     (if N \<le> 1 \<or> N AND (N - 1) \<noteq> 0
      then Inl (Error ''scrypt: N must be > 1 and a power of 2'')
      else if r * p \<ge> 2 ^ 30 \<or> r > maxInt div 128 div p \<or> r > maxInt div 256
                \<or> N > maxInt div 128 div r
      then Inl (Error ''scrypt: parameters are too large'')
      else Inr (map (scrypt_stream E password salt N r p) [0..<keyLen]))"

text \<open>\<^verbatim>\<open>aes.NewCipher(key)\<close> accepts keys of 16, 24 or 32 bytes; the block is its key.\<close>

definition aes_NewCipher :: "bytes \<Rightarrow> error + bytes" where
  "aes_NewCipher key =
     (if length key = 16 \<or> length key = 24 \<or> length key = 32 then Inr key
      else Inl (Error ''crypto/aes: invalid key size''))"

text \<open>
  \<^verbatim>\<open>cipher.NewCTR(block, iv)\<close> panics unless the IV has the block size (16); the stream
  it returns is the key stream. \<^verbatim>\<open>XORKeyStream(dst, src)\<close> xors \<open>src\<close> with the key
  stream into \<open>dst\<close>, which the code allocates with the length of \<open>src\<close>.
\<close>

definition NewCTR :: "crypto \<Rightarrow> bytes \<Rightarrow> bytes \<Rightarrow> error + (nat \<Rightarrow> byte)" where
  "NewCTR E block iv =
     (if length iv \<noteq> 16 then Inl (Panic ''cipher.NewCTR: IV length must equal block size'')
      else Inr (aes_ctr_stream E block iv))"

definition XORKeyStream :: "(nat \<Rightarrow> byte) \<Rightarrow> bytes \<Rightarrow> bytes" where
  "XORKeyStream stream src = map (\<lambda>(i, b). b XOR stream i) (enumerate 0 src)"

section \<open>Key records\<close>

record KeyPairInfo =
  ID :: string
  RawKey :: string
  KeyType :: string
  PubKey :: string
  Salt :: string
  EncryptedKey :: string
  Mac :: string

text \<open>
  \<^verbatim>\<open>NewKeyPairInfo(rawKey, keyType)\<close>. The identifier is the string of the UUID that
  \<^verbatim>\<open>uuid.NewUUID()\<close> draws (its error is ignored by the code); it is an argument here.
\<close>

definition NewKeyPairInfo :: "crypto \<Rightarrow> string \<Rightarrow> string \<Rightarrow> string \<Rightarrow> error + KeyPairInfo" where
  "NewKeyPairInfo E uid rawKey keyType =
     (if rawKey = [] then Inl (Error ''empty key'')
      else case MarshalBinary E uid of
          Inl err \<Rightarrow> Inl err
        | Inr pubb \<Rightarrow>
            Inr \<lparr>ID = uid, RawKey = rawKey, KeyType = keyType,
                 PubKey = EncodeBase58 E pubb, Salt = [], EncryptedKey = [], Mac = []\<rparr>)"

definition KeyPairInfo_IsEncrypted :: "KeyPairInfo \<Rightarrow> bool" where
  "KeyPairInfo_IsEncrypted k \<longleftrightarrow> EncryptedKey k \<noteq> [] \<or> RawKey k = []"

text \<open>
  \<^verbatim>\<open>(k *KeyPairInfo) Encrypt(password)\<close> mutates the record and returns an error. The
  model returns the error (\<open>None\<close> for \<^verbatim>\<open>nil\<close>) together with the record as the call
  leaves it. \<open>rnd\<close> is the stream of bytes that \<^verbatim>\<open>frand.Read\<close> delivers: the code fills
  the first 32 of the 48 salt bytes from it and leaves the last 16 zero.
\<close>

definition KeyPairInfo_Encrypt ::
  "crypto \<Rightarrow> (nat \<Rightarrow> byte) \<Rightarrow> bytes \<Rightarrow> KeyPairInfo \<Rightarrow> error option \<times> KeyPairInfo" where
  "KeyPairInfo_Encrypt E rnd password k =
     (if KeyPairInfo_IsEncrypted k then (Some (Error ''already encrypted''), k)
      else
        let salt = map rnd [0..<32] @ replicate 16 0 in
        (case slice_expr salt 0 32 of Inl err \<Rightarrow> (Some err, k) | Inr kdfSalt \<Rightarrow>
        (case scrypt_Key E password kdfSalt 32768 8 1 32 of Inl err \<Rightarrow> (Some err, k) | Inr key \<Rightarrow>
        (case slice_expr key 0 16 of Inl err \<Rightarrow> (Some err, k) | Inr cipherKey \<Rightarrow>
        (case aes_NewCipher cipherKey of Inl err \<Rightarrow> (Some err, k) | Inr aesBlock \<Rightarrow>
        (case slice_expr salt 32 48 of Inl err \<Rightarrow> (Some err, k) | Inr iv \<Rightarrow>
        (case NewCTR E aesBlock iv of Inl err \<Rightarrow> (Some err, k) | Inr stream \<Rightarrow>
        (let inText = DecodeBase58 E (RawKey k);
             outText = XORKeyStream stream inText in
        (case slice_expr key 16 32 of Inl err \<Rightarrow> (Some err, k) | Inr macKey \<Rightarrow>
        (let mac = Sha3 E (macKey @ outText) in
         (None, k\<lparr>Salt := EncodeBase58 E salt, Mac := EncodeBase58 E mac,
                  RawKey := []\<rparr>)))))))))))"

definition KeyPairInfo_Decrypt ::
  "crypto \<Rightarrow> bytes \<Rightarrow> KeyPairInfo \<Rightarrow> error option \<times> KeyPairInfo" where
  "KeyPairInfo_Decrypt E password k =
     (if \<not> KeyPairInfo_IsEncrypted k then (Some (Error ''not encrypted''), k)
      else
        let salt = DecodeBase58 E (Salt k) in
        (case slice_expr salt 0 32 of Inl err \<Rightarrow> (Some err, k) | Inr kdfSalt \<Rightarrow>
        (case scrypt_Key E password kdfSalt 32768 8 1 32 of Inl err \<Rightarrow> (Some err, k) | Inr key \<Rightarrow>
        (case slice_expr key 0 16 of Inl err \<Rightarrow> (Some err, k) | Inr cipherKey \<Rightarrow>
        (case aes_NewCipher cipherKey of Inl err \<Rightarrow> (Some err, k) | Inr aesBlock \<Rightarrow>
        (case slice_expr salt 32 48 of Inl err \<Rightarrow> (Some err, k) | Inr iv \<Rightarrow>
        (case NewCTR E aesBlock iv of Inl err \<Rightarrow> (Some err, k) | Inr stream \<Rightarrow>
        (let inText = DecodeBase58 E (EncryptedKey k);
             outText = XORKeyStream stream inText in
        (case slice_expr key 16 32 of Inl err \<Rightarrow> (Some err, k) | Inr macKey \<Rightarrow>
        (let mac = Sha3 E (macKey @ inText) in
         if mac \<noteq> DecodeBase58 E (Mac k) then (Some (Error ''wrong password''), k)
         else (None, k\<lparr>RawKey := EncodeBase58 E outText\<rparr>)))))))))))"

section \<open>Account records\<close>

text \<open>
  \<^verbatim>\<open>Keypairs\<close> is a Go map from a role label to a key record. The model keeps it as a
  list of pairs with distinct labels, in the order in which the \<^verbatim>\<open>range\<close> loop visits
  the entries; the theorems below hold for every list, hence for every order.
\<close>

record AccountInfo =
  Name :: string
  Keypairs :: "(string \<times> KeyPairInfo) list"

definition NewAccountInfo :: AccountInfo where
  "NewAccountInfo = \<lparr>Name = [], Keypairs = []\<rparr>"

fun any_encrypted :: "(string \<times> KeyPairInfo) list \<Rightarrow> bool" where
  "any_encrypted [] = False"
| "any_encrypted ((label, kp) # rest) =
     (if KeyPairInfo_IsEncrypted kp then True else any_encrypted rest)"

definition AccountInfo_IsEncrypted :: "AccountInfo \<Rightarrow> bool" where
  "AccountInfo_IsEncrypted a = any_encrypted (Keypairs a)"

text \<open>
  The loops of \<^verbatim>\<open>Encrypt\<close> and \<^verbatim>\<open>Decrypt\<close>: they stop at the first error and leave the
  members visited before it as the calls left them. Every member's \<^verbatim>\<open>Encrypt\<close> reads
  32 further bytes of the random stream.
\<close>

fun encrypt_each ::
  "crypto \<Rightarrow> (nat \<Rightarrow> byte) \<Rightarrow> bytes \<Rightarrow> (string \<times> KeyPairInfo) list
     \<Rightarrow> error option \<times> (string \<times> KeyPairInfo) list" where
  "encrypt_each E rnd password [] = (None, [])"
| "encrypt_each E rnd password ((label, k) # rest) =
     (case KeyPairInfo_Encrypt E rnd password k of
        (Some err, k') \<Rightarrow> (Some err, (label, k') # rest)
      | (None, k') \<Rightarrow>
          (case encrypt_each E (\<lambda>i. rnd (i + 32)) password rest of
             (r, rest') \<Rightarrow> (r, (label, k') # rest')))"

fun decrypt_each ::
  "crypto \<Rightarrow> bytes \<Rightarrow> (string \<times> KeyPairInfo) list
     \<Rightarrow> error option \<times> (string \<times> KeyPairInfo) list" where
  "decrypt_each E password [] = (None, [])"
| "decrypt_each E password ((label, kp) # rest) =
     (case KeyPairInfo_Decrypt E password kp of
        (Some err, kp') \<Rightarrow> (Some err, (label, kp') # rest)
      | (None, kp') \<Rightarrow>
          (case decrypt_each E password rest of
             (r, rest') \<Rightarrow> (r, (label, kp') # rest')))"

definition AccountInfo_Decrypt ::
  "crypto \<Rightarrow> bytes \<Rightarrow> AccountInfo \<Rightarrow> error option \<times> AccountInfo" where
  "AccountInfo_Decrypt E password a =
     (if \<not> AccountInfo_IsEncrypted a then (Some (Error ''not encrypted''), a)
      else case decrypt_each E password (Keypairs a) of
             (r, kps) \<Rightarrow> (r, a\<lparr>Keypairs := kps\<rparr>))"

definition AccountInfo_Encrypt ::
  "crypto \<Rightarrow> (nat \<Rightarrow> byte) \<Rightarrow> bytes \<Rightarrow> AccountInfo \<Rightarrow> error option \<times> AccountInfo" where
  "AccountInfo_Encrypt E rnd password a =
     (if AccountInfo_IsEncrypted a then (Some (Error ''account already encrypted''), a)
      else case encrypt_each E rnd password (Keypairs a) of
             (r, kps) \<Rightarrow> (r, a\<lparr>Keypairs := kps\<rparr>))"

section \<open>The account store\<close>

text \<open>
  The store keeps one file per account under a directory. The file system is a map from
  paths to file contents. Whether a system call fails is decided by the environment:
  \<open>os_env\<close> says which calls fail, what a failed write leaves behind at its path, what
  the clock reads (already formatted as RFC 3339), and what \<^verbatim>\<open>json.MarshalIndent\<close>
  returns.
\<close>

type_synonym files = "string \<rightharpoonup> string"

record os_env =
  MkdirAll_fails :: "string \<Rightarrow> bool"
  Stat_fails :: "string \<Rightarrow> bool"
  Rename_fails :: "string \<Rightarrow> string \<Rightarrow> bool"
  WriteFile_fails :: "string \<Rightarrow> string option option"
  Now :: string
  MarshalIndent :: "AccountInfo \<Rightarrow> error + string"

definition ErrNotExist :: error where
  "ErrNotExist = Error ''file does not exist''"

definition ErrPermission :: error where
  "ErrPermission = Error ''permission denied''"

definition os_IsNotExist :: "error option \<Rightarrow> bool" where
  "os_IsNotExist err \<longleftrightarrow> err = Some ErrNotExist"

definition os_MkdirAll :: "os_env \<Rightarrow> string \<Rightarrow> error option" where
  "os_MkdirAll W path = (if MkdirAll_fails W path then Some ErrPermission else None)"

definition os_Stat :: "os_env \<Rightarrow> files \<Rightarrow> string \<Rightarrow> error option" where
  "os_Stat W fs path =
     (if Stat_fails W path then Some ErrPermission
      else if fs path = None then Some ErrNotExist else None)"

text \<open>\<^verbatim>\<open>os.Rename\<close> moves the content and replaces whatever the new path held.\<close>

definition os_Rename :: "os_env \<Rightarrow> files \<Rightarrow> string \<Rightarrow> string \<Rightarrow> error option \<times> files" where
  "os_Rename W fs oldpath newpath =
     (if Rename_fails W oldpath newpath then (Some ErrPermission, fs)
      else case fs oldpath of
          None \<Rightarrow> (Some ErrNotExist, fs)
        | Some content \<Rightarrow> (None, (fs(oldpath := None))(newpath \<mapsto> content)))"

text \<open>
  \<^verbatim>\<open>os.WriteFile\<close>: a failed write leaves the path untouched (\<open>Some None\<close>) or holding
  some partial content (\<open>Some (Some part)\<close>).
\<close>

definition os_WriteFile :: "os_env \<Rightarrow> files \<Rightarrow> string \<Rightarrow> string \<Rightarrow> error option \<times> files" where
  "os_WriteFile W fs name data =
     (case WriteFile_fails W name of
        None \<Rightarrow> (None, fs(name \<mapsto> data))
      | Some None \<Rightarrow> (Some (Error ''write failed''), fs)
      | Some (Some part) \<Rightarrow> (Some (Error ''write failed''), fs(name \<mapsto> part)))"

definition AccountInfo_SaveTo ::
  "os_env \<Rightarrow> AccountInfo \<Rightarrow> string \<Rightarrow> files \<Rightarrow> error option \<times> files" where
  "AccountInfo_SaveTo W a fileName fs =
     (case MarshalIndent W a of
        Inl err \<Rightarrow> (Some err, fs)
      | Inr data \<Rightarrow> os_WriteFile W fs fileName data)"

record FileAccountStore =
  AccountDir :: string

definition SaveAccount ::
  "FileAccountStore \<Rightarrow> os_env \<Rightarrow> AccountInfo \<Rightarrow> files \<Rightarrow> error option \<times> files" where
  "SaveAccount s W a fs =
     (let dir = AccountDir s in
      case os_MkdirAll W (AccountDir s) of
        Some err \<Rightarrow> (Some err, fs)
      | None \<Rightarrow>
         (let fileName = dir @ ''/'' @ Name a @ ''.json'' in
          if \<not> os_IsNotExist (os_Stat W fs fileName) then
            (let timeStr = Now W;
                 backupDir = dir @ ''/backup'' in
             case os_MkdirAll W backupDir of
               Some err \<Rightarrow> (Some err, fs)
             | None \<Rightarrow>
                (let backupFileName = backupDir @ ''/'' @ Name a @ ''.'' @ timeStr @ ''.json'' in
                 case os_Rename W fs fileName backupFileName of
                   (Some err, fs') \<Rightarrow> (Some err, fs')
                 | (None, fs') \<Rightarrow> AccountInfo_SaveTo W a fileName fs'))
          else AccountInfo_SaveTo W a fileName fs))"

section \<open>A small instance for running the model\<close>

text \<open>
  To run the operations on concrete inputs, the parameters need values. The instance
  below has the interfaces of the packages and none of their strength: the key
  derivation, the key stream and the digest are byte sums, the codec writes a byte as
  the character with that code. The general theorems do not depend on it.
\<close>

definition sum_bytes :: "bytes \<Rightarrow> byte" where
  "sum_bytes bs = foldr (+) bs 0"

definition toy_crypto :: crypto where
  "toy_crypto =
     \<lparr>scrypt_stream = (\<lambda>password salt N r p i. sum_bytes password + sum_bytes salt + of_nat i),
      aes_ctr_stream = (\<lambda>key iv i. sum_bytes key + sum_bytes iv + of_nat i),
      Sha3 = (\<lambda>bs. [sum_bytes bs, of_nat (length bs)]),
      EncodeBase58 = map (\<lambda>b. char_of (unat b)),
      DecodeBase58 = map (\<lambda>c. of_nat (of_char c)),
      MarshalBinary = (\<lambda>uid. Inr (map (\<lambda>c. of_nat (of_char c)) uid))\<rparr>"

definition toy_os :: os_env where
  "toy_os =
     \<lparr>MkdirAll_fails = (\<lambda>path. False),
      Stat_fails = (\<lambda>path. False),
      Rename_fails = (\<lambda>oldpath newpath. False),
      WriteFile_fails = (\<lambda>name. None),
      Now = ''2024-05-01T10:00:00Z'',
      MarshalIndent = (\<lambda>a. Inr (''{name: '' @ Name a @ ''}''))\<rparr>"

definition toy_rnd :: "nat \<Rightarrow> byte" where
  "toy_rnd = (\<lambda>i. 65)"

text \<open>The record that \<open>NewKeyPairInfo toy_crypto ''id-1'' ''abc'' ''ed25519''\<close> returns.\<close>

definition toy_key :: KeyPairInfo where
  "toy_key =
     \<lparr>ID = ''id-1'', RawKey = ''abc'', KeyType = ''ed25519'', PubKey = ''id-1'',
      Salt = [], EncryptedKey = [], Mac = []\<rparr>"

text \<open>
  An encrypted record as a key file holds it: ciphertext, a 48-byte salt, and the MAC
  that belongs to them under the password \<open>[1, 2]\<close>.
\<close>

definition toy_loaded :: KeyPairInfo where
  "toy_loaded =
     \<lparr>ID = ''id-2'', RawKey = [], KeyType = ''ed25519'', PubKey = ''pub'',
      Salt = ''AAAAAAAAAAAAAAAAAAAAAAAAAAAAAAAAAAAAAAAAAAAAAAAA'',
      EncryptedKey = ''xyz'', Mac = [CHR 0x13, CHR 0x13]\<rparr>"

definition toy_account :: AccountInfo where
  "toy_account = \<lparr>Name = ''alice'', Keypairs = [(''active'', toy_key), (''owner'', toy_loaded)]\<rparr>"

definition toy_store :: FileAccountStore where
  "toy_store = \<lparr>AccountDir = ''/keys''\<rparr>"

definition toy_files :: files where
  "toy_files = [''/keys/alice.json'' \<mapsto> ''old'']"

section \<open>The state invariant of the data model\<close>

text \<open>A record is in one state at a time: it does not hold a raw key and an encrypted key.\<close>

definition one_state :: "KeyPairInfo \<Rightarrow> bool" where
  "one_state k \<longleftrightarrow> RawKey k = [] \<or> EncryptedKey k = []"

section \<open>What the package calls return\<close>

text \<open>
  With the cost parameters the code passes, scrypt accepts its arguments and returns 32
  bytes. Hence neither the slices of the derived key nor \<^verbatim>\<open>aes.NewCipher\<close> can fail.
\<close>

lemma scrypt_Key_fixed:
  "scrypt_Key E password salt 32768 8 1 32 =
     Inr (map (scrypt_stream E password salt 32768 8 1) [0..<32])"
  by (simp add: scrypt_Key_def maxInt_def)

lemma scrypt_Key_fixed_Suc:
  "scrypt_Key E password salt 32768 8 (Suc 0) 32 =
     Inr (map (scrypt_stream E password salt 32768 8 (Suc 0)) [0..<32])"
  by (simp add: scrypt_Key_def maxInt_def)

lemma XORKeyStream_Nil: "XORKeyStream stream [] = []"
  by (simp add: XORKeyStream_def)

lemma length_XORKeyStream: "length (XORKeyStream stream src) = length src"
  by (simp add: XORKeyStream_def)

lemmas crypto_steps =
  scrypt_Key_fixed scrypt_Key_fixed_Suc slice_expr_def aes_NewCipher_def NewCTR_def Let_def

section \<open>Outcomes of the key record operations\<close>

lemma NewKeyPairInfo_plain:
  "NewKeyPairInfo E uid rawKey keyType = Inr k \<Longrightarrow> \<not> KeyPairInfo_IsEncrypted k"
  by (auto simp add: NewKeyPairInfo_def KeyPairInfo_IsEncrypted_def split: if_splits sum.splits)

lemma Encrypt_encrypted:
  "KeyPairInfo_IsEncrypted k \<Longrightarrow>
     KeyPairInfo_Encrypt E rnd password k = (Some (Error ''already encrypted''), k)"
  by (simp add: KeyPairInfo_Encrypt_def)

text \<open>On a plaintext record \<^verbatim>\<open>Encrypt\<close> always runs to its end.\<close>

lemma Encrypt_plain:
  assumes "\<not> KeyPairInfo_IsEncrypted k"
  shows "fst (KeyPairInfo_Encrypt E rnd password k) = None"
    and "RawKey (snd (KeyPairInfo_Encrypt E rnd password k)) = []"
    and "EncryptedKey (snd (KeyPairInfo_Encrypt E rnd password k)) = []"
    and "Salt (snd (KeyPairInfo_Encrypt E rnd password k)) =
           EncodeBase58 E (map rnd [0..<32] @ replicate 16 0)"
  using assms
  by (simp_all add: KeyPairInfo_Encrypt_def KeyPairInfo_IsEncrypted_def crypto_steps)

text \<open>
  \<^verbatim>\<open>Decrypt\<close> either returns an error (or panics) with the record as it was, or it
  succeeds and has written the decoded text into \<open>RawKey\<close> and nothing else.
\<close>

lemma Decrypt_result:
  "(\<exists>err. KeyPairInfo_Decrypt E password k = (Some err, k))
   \<or> KeyPairInfo_IsEncrypted k \<and>
      (\<exists>stream. KeyPairInfo_Decrypt E password k =
         (None, k\<lparr>RawKey :=
                     EncodeBase58 E (XORKeyStream stream (DecodeBase58 E (EncryptedKey k)))\<rparr>))"
  by (auto simp add: KeyPairInfo_Decrypt_def Let_def split: sum.splits)

lemmas toy_simps =
  toy_crypto_def toy_key_def toy_rnd_def toy_loaded_def sum_bytes_def KeyPairInfo_IsEncrypted_def

lemma toy_key_plain: "\<not> KeyPairInfo_IsEncrypted toy_key"
  by (simp add: toy_simps)

section \<open>Encrypt followed by Decrypt\<close>

text \<open>
  Claim C1 (round trip). The specification asks that a record created from a raw key,
  encrypted and then decrypted with the same password, holds the raw key again.

  \<^verbatim>\<open>Encrypt\<close> computes the ciphertext \<^verbatim>\<open>outText\<close>, puts it under the MAC, and never
  assigns it to \<^verbatim>\<open>k.EncryptedKey\<close>; \<^verbatim>\<open>Decrypt\<close> reads \<^verbatim>\<open>k.EncryptedKey\<close>. So the
  record that \<^verbatim>\<open>Encrypt\<close> leaves has an empty encrypted key, and the round trip fails for
  every raw key that decodes to at least one byte: whenever the codec maps the empty
  string to no bytes and back, either \<^verbatim>\<open>Decrypt\<close> does not succeed, or the raw key it
  stores does not decode to the bytes of the original.
\<close>

theorem Encrypt_Decrypt_round_trip_fails:
  assumes "DecodeBase58 E [] = []"
    and "DecodeBase58 E (EncodeBase58 E []) = []"
    and "DecodeBase58 E (RawKey k) \<noteq> []"
    and "KeyPairInfo_Encrypt E rnd password k = (None, k1)"
  shows "\<not> (fst (KeyPairInfo_Decrypt E password k1) = None
            \<and> DecodeBase58 E (RawKey (snd (KeyPairInfo_Decrypt E password k1)))
                = DecodeBase58 E (RawKey k))"
proof -
  have plain: "\<not> KeyPairInfo_IsEncrypted k"
    using assms(4) Encrypt_encrypted [of k E rnd password] by auto
  have "EncryptedKey k1 = []"
    using Encrypt_plain(3) [OF plain, of E rnd password] assms(4) by simp
  then show ?thesis
    using Decrypt_result [of E password k1] assms(1,2,3)
    by (auto simp add: XORKeyStream_Nil)
qed

theorem Encrypt_Decrypt_round_trip_fails_witness:
  "DecodeBase58 toy_crypto [] = []
   \<and> DecodeBase58 toy_crypto (EncodeBase58 toy_crypto []) = []
   \<and> DecodeBase58 toy_crypto (RawKey toy_key) \<noteq> []
   \<and> fst (KeyPairInfo_Encrypt toy_crypto toy_rnd [1, 2] toy_key) = None
   \<and> \<not> (fst (KeyPairInfo_Decrypt toy_crypto [1, 2]
               (snd (KeyPairInfo_Encrypt toy_crypto toy_rnd [1, 2] toy_key))) = None
         \<and> DecodeBase58 toy_crypto (RawKey (snd (KeyPairInfo_Decrypt toy_crypto [1, 2]
               (snd (KeyPairInfo_Encrypt toy_crypto toy_rnd [1, 2] toy_key)))))
             = DecodeBase58 toy_crypto (RawKey toy_key))
   \<and> fst (KeyPairInfo_Decrypt toy_crypto [1, 2]
            (snd (KeyPairInfo_Encrypt toy_crypto toy_rnd [1, 2] toy_key)))
       = Some (Error ''wrong password'')"
proof -
  have h1: "DecodeBase58 toy_crypto [] = []"
    by (simp add: toy_crypto_def)
  have h2: "DecodeBase58 toy_crypto (EncodeBase58 toy_crypto []) = []"
    by (simp add: toy_crypto_def)
  have h3: "DecodeBase58 toy_crypto (RawKey toy_key) \<noteq> []"
    by (simp add: toy_crypto_def toy_key_def)
  have h4: "KeyPairInfo_Encrypt toy_crypto toy_rnd [1, 2] toy_key
              = (None, snd (KeyPairInfo_Encrypt toy_crypto toy_rnd [1, 2] toy_key))"
    using Encrypt_plain(1) [OF toy_key_plain, of toy_crypto toy_rnd "[1, 2]"]
    by (simp add: prod_eq_iff)
  have e: "fst (KeyPairInfo_Encrypt toy_crypto toy_rnd [1, 2] toy_key) = None"
    using Encrypt_plain(1) [OF toy_key_plain] .
  have c: "\<not> (fst (KeyPairInfo_Decrypt toy_crypto [1, 2]
               (snd (KeyPairInfo_Encrypt toy_crypto toy_rnd [1, 2] toy_key))) = None
         \<and> DecodeBase58 toy_crypto (RawKey (snd (KeyPairInfo_Decrypt toy_crypto [1, 2]
               (snd (KeyPairInfo_Encrypt toy_crypto toy_rnd [1, 2] toy_key)))))
             = DecodeBase58 toy_crypto (RawKey toy_key))"
    using Encrypt_Decrypt_round_trip_fails [OF h1 h2 h3 h4] .
  have w: "fst (KeyPairInfo_Decrypt toy_crypto [1, 2]
            (snd (KeyPairInfo_Encrypt toy_crypto toy_rnd [1, 2] toy_key)))
       = Some (Error ''wrong password'')"
    by code_simp
  show ?thesis
    by (intro conjI h1 h2 h3 e c w)
qed

section \<open>What Encrypt stores\<close>

text \<open>
  Claim C2 (postcondition of \<^verbatim>\<open>Encrypt\<close>). The specification asks that a successful
  \<^verbatim>\<open>Encrypt\<close> stores ciphertext, salt and MAC in their encoded forms and clears the raw
  key, so that the encrypted key is not empty afterwards.

  The code stores the salt and the MAC and clears the raw key, but it has no assignment
  to \<^verbatim>\<open>k.EncryptedKey\<close>: whenever \<^verbatim>\<open>Encrypt\<close> succeeds, the encrypted key of the record
  is empty, and the ciphertext is lost.
\<close>

theorem Encrypt_leaves_EncryptedKey_empty:
  assumes "KeyPairInfo_Encrypt E rnd password k = (None, k')"
  shows "EncryptedKey k' = [] \<and> RawKey k' = []
         \<and> Salt k' = EncodeBase58 E (map rnd [0..<32] @ replicate 16 0)"
proof -
  have plain: "\<not> KeyPairInfo_IsEncrypted k"
    using assms Encrypt_encrypted [of k E rnd password] by auto
  show ?thesis
    using Encrypt_plain(2,3,4) [OF plain, of E rnd password] assms by simp
qed

theorem Encrypt_leaves_EncryptedKey_empty_witness:
  "KeyPairInfo_Encrypt toy_crypto toy_rnd [1, 2] toy_key
     = (None, toy_key\<lparr>Salt := ''AAAAAAAAAAAAAAAAAAAAAAAAAAAAAAAA'' @ replicate 16 (CHR 0x00),
                      Mac := [CHR 0x05, CHR 0x13], RawKey := []\<rparr>)
   \<and> EncryptedKey (toy_key\<lparr>Salt := ''AAAAAAAAAAAAAAAAAAAAAAAAAAAAAAAA'' @ replicate 16 (CHR 0x00),
                      Mac := [CHR 0x05, CHR 0x13], RawKey := []\<rparr>) = []"
proof -
  have e: "KeyPairInfo_Encrypt toy_crypto toy_rnd [1, 2] toy_key
     = (None, toy_key\<lparr>Salt := ''AAAAAAAAAAAAAAAAAAAAAAAAAAAAAAAA'' @ replicate 16 (CHR 0x00),
                      Mac := [CHR 0x05, CHR 0x13], RawKey := []\<rparr>)"
    by code_simp
  show ?thesis
    using Encrypt_leaves_EncryptedKey_empty [OF e] e by simp
qed

section \<open>The state invariant\<close>

text \<open>
  Claim C3 (exactly one state). The specification asks that no record reachable through
  creation, \<^verbatim>\<open>Encrypt\<close> and \<^verbatim>\<open>Decrypt\<close> holds a raw key and an encrypted key at once,
  also after \<^verbatim>\<open>Decrypt\<close> of a record loaded with an encrypted key.

  \<^verbatim>\<open>Decrypt\<close> writes the raw key and leaves the encrypted key where it is. The record
  \<open>toy_loaded\<close> is in one state; decrypted with its password it holds both keys.
\<close>

theorem Decrypt_keeps_EncryptedKey_counterexample:
  "one_state toy_loaded
   \<and> KeyPairInfo_Decrypt toy_crypto [1, 2] toy_loaded
       = (None, toy_loaded\<lparr>RawKey := [CHR 0xC0, CHR 0xC0, CHR 0xC0]\<rparr>)
   \<and> \<not> one_state (snd (KeyPairInfo_Decrypt toy_crypto [1, 2] toy_loaded))"
  by code_simp

text \<open>
  Claim C3 as amended. A record that \<^verbatim>\<open>NewKeyPairInfo\<close> returns has an empty encrypted
  key, so it is in one state. \<^verbatim>\<open>Encrypt\<close> keeps a record in one state. \<^verbatim>\<open>Decrypt\<close> keeps
  it in one state when it returns an error or when the encrypted key is empty.
  \<^verbatim>\<open>Decrypt\<close> never changes the encrypted key, the salt or the MAC; so after \<^verbatim>\<open>Decrypt\<close>
  of a record with a non-empty encrypted key, the record is in one state exactly when
  its raw key is then empty, and it holds both keys whenever its raw key is not empty
  after the call.
\<close>

theorem one_state_by_operation:
  "(NewKeyPairInfo E uid rawKey keyType = Inr k \<longrightarrow> EncryptedKey k = [] \<and> one_state k)
   \<and> (one_state k \<longrightarrow> one_state (snd (KeyPairInfo_Encrypt E rnd password k)))
   \<and> (one_state k \<and> (fst (KeyPairInfo_Decrypt E password k) \<noteq> None \<or> EncryptedKey k = [])
        \<longrightarrow> one_state (snd (KeyPairInfo_Decrypt E password k)))
   \<and> EncryptedKey (snd (KeyPairInfo_Decrypt E password k)) = EncryptedKey k
   \<and> Salt (snd (KeyPairInfo_Decrypt E password k)) = Salt k
   \<and> Mac (snd (KeyPairInfo_Decrypt E password k)) = Mac k
   \<and> (EncryptedKey k \<noteq> [] \<longrightarrow>
        (one_state (snd (KeyPairInfo_Decrypt E password k))
           \<longleftrightarrow> RawKey (snd (KeyPairInfo_Decrypt E password k)) = []))
   \<and> (EncryptedKey k \<noteq> [] \<and> RawKey (snd (KeyPairInfo_Decrypt E password k)) \<noteq> [] \<longrightarrow>
        EncryptedKey (snd (KeyPairInfo_Decrypt E password k)) \<noteq> []
        \<and> \<not> one_state (snd (KeyPairInfo_Decrypt E password k)))"
proof -
  have a: "NewKeyPairInfo E uid rawKey keyType = Inr k \<longrightarrow> EncryptedKey k = [] \<and> one_state k"
    by (auto simp add: NewKeyPairInfo_def one_state_def split: if_splits sum.splits)
  have b: "one_state k \<longrightarrow> one_state (snd (KeyPairInfo_Encrypt E rnd password k))"
  proof (cases "KeyPairInfo_IsEncrypted k")
    case True
    then show ?thesis by (simp add: Encrypt_encrypted)
  next
    case False
    then show ?thesis by (simp add: one_state_def Encrypt_plain(2))
  qed
  have c: "one_state k \<and> (fst (KeyPairInfo_Decrypt E password k) \<noteq> None \<or> EncryptedKey k = [])
        \<longrightarrow> one_state (snd (KeyPairInfo_Decrypt E password k))"
    using Decrypt_result [of E password k] by (auto simp add: one_state_def)
  have d: "EncryptedKey (snd (KeyPairInfo_Decrypt E password k)) = EncryptedKey k
     \<and> Salt (snd (KeyPairInfo_Decrypt E password k)) = Salt k
     \<and> Mac (snd (KeyPairInfo_Decrypt E password k)) = Mac k"
    using Decrypt_result [of E password k] by auto
  have e: "EncryptedKey k \<noteq> [] \<longrightarrow>
        (one_state (snd (KeyPairInfo_Decrypt E password k))
           \<longleftrightarrow> RawKey (snd (KeyPairInfo_Decrypt E password k)) = [])"
    using d by (simp add: one_state_def)
  have f: "EncryptedKey k \<noteq> [] \<and> RawKey (snd (KeyPairInfo_Decrypt E password k)) \<noteq> [] \<longrightarrow>
        EncryptedKey (snd (KeyPairInfo_Decrypt E password k)) \<noteq> []
        \<and> \<not> one_state (snd (KeyPairInfo_Decrypt E password k))"
    using d by (simp add: one_state_def)
  from a b c d e f show ?thesis by blast
qed

theorem one_state_by_operation_witness:
  "NewKeyPairInfo toy_crypto ''id-1'' ''abc'' ''ed25519'' = Inr toy_key
   \<and> EncryptedKey toy_key = []
   \<and> one_state toy_key
   \<and> one_state (snd (KeyPairInfo_Encrypt toy_crypto toy_rnd [1, 2] toy_key))
   \<and> fst (KeyPairInfo_Decrypt toy_crypto [1, 3] toy_loaded) \<noteq> None
   \<and> one_state toy_loaded
   \<and> one_state (snd (KeyPairInfo_Decrypt toy_crypto [1, 3] toy_loaded))
   \<and> EncryptedKey (snd (KeyPairInfo_Decrypt toy_crypto [1, 3] toy_loaded)) = EncryptedKey toy_loaded
   \<and> EncryptedKey toy_loaded \<noteq> []
   \<and> fst (KeyPairInfo_Decrypt toy_crypto [1, 2] toy_loaded) = None
   \<and> RawKey (snd (KeyPairInfo_Decrypt toy_crypto [1, 2] toy_loaded)) \<noteq> []
   \<and> EncryptedKey (snd (KeyPairInfo_Decrypt toy_crypto [1, 2] toy_loaded)) \<noteq> []
   \<and> \<not> one_state (snd (KeyPairInfo_Decrypt toy_crypto [1, 2] toy_loaded))"
proof -
  have n: "NewKeyPairInfo toy_crypto ''id-1'' ''abc'' ''ed25519'' = Inr toy_key"
    by code_simp
  have f: "fst (KeyPairInfo_Decrypt toy_crypto [1, 3] toy_loaded) \<noteq> None"
    by code_simp
  have l: "one_state toy_loaded"
    by (simp add: one_state_def toy_loaded_def)
  have x: "EncryptedKey toy_loaded \<noteq> []"
    by (simp add: toy_loaded_def)
  have s: "fst (KeyPairInfo_Decrypt toy_crypto [1, 2] toy_loaded) = None"
    by code_simp
  have r: "RawKey (snd (KeyPairInfo_Decrypt toy_crypto [1, 2] toy_loaded)) \<noteq> []"
    by code_simp
  have k: "EncryptedKey toy_key = [] \<and> one_state toy_key"
    using one_state_by_operation [of toy_crypto "''id-1''" "''abc''" "''ed25519''" toy_key] n
    by blast
  have e: "one_state (snd (KeyPairInfo_Encrypt toy_crypto toy_rnd [1, 2] toy_key))"
    using one_state_by_operation [of toy_crypto "''id-1''" "''abc''" "''ed25519''" toy_key
        toy_rnd "[1, 2]"] k
    by blast
  have d: "one_state (snd (KeyPairInfo_Decrypt toy_crypto [1, 3] toy_loaded))
     \<and> EncryptedKey (snd (KeyPairInfo_Decrypt toy_crypto [1, 3] toy_loaded)) = EncryptedKey toy_loaded"
    using one_state_by_operation [of toy_crypto _ _ _ toy_loaded _ "[1, 3]"] f l
    by blast
  have b: "EncryptedKey (snd (KeyPairInfo_Decrypt toy_crypto [1, 2] toy_loaded)) \<noteq> []
     \<and> \<not> one_state (snd (KeyPairInfo_Decrypt toy_crypto [1, 2] toy_loaded))"
    using one_state_by_operation [of toy_crypto _ _ _ toy_loaded _ "[1, 2]"] x r
    by blast
  show ?thesis
    using n k e f l d x s r b by (intro conjI) blast+
qed

section \<open>Decrypt with a wrong password\<close>

text \<open>
  Claim C4 (wrong password). When the MAC check of \<^verbatim>\<open>Decrypt\<close> fails, the call returns
  the error \<^verbatim>\<open>wrong password\<close> and the record is as it was before the call: raw key,
  encrypted key, salt and MAC keep their values.

  The MAC check is reached when the record is encrypted and its salt decodes to at
  least 48 bytes; \<open>key\<close> is what scrypt derives from the password and the first 32 salt
  bytes, and its second half is the MAC key.
\<close>

theorem Decrypt_wrong_password_unchanged:
  assumes "KeyPairInfo_IsEncrypted k"
    and "48 \<le> length (DecodeBase58 E (Salt k))"
    and "scrypt_Key E password (take 32 (DecodeBase58 E (Salt k))) 32768 8 1 32 = Inr key"
    and "Sha3 E (drop 16 key @ DecodeBase58 E (EncryptedKey k)) \<noteq> DecodeBase58 E (Mac k)"
  shows "KeyPairInfo_Decrypt E password k = (Some (Error ''wrong password''), k)"
  using assms by (auto simp add: KeyPairInfo_Decrypt_def crypto_steps)

theorem Decrypt_wrong_password_unchanged_witness:
  "KeyPairInfo_IsEncrypted toy_loaded
   \<and> 48 \<le> length (DecodeBase58 toy_crypto (Salt toy_loaded))
   \<and> scrypt_Key toy_crypto [1, 3] (take 32 (DecodeBase58 toy_crypto (Salt toy_loaded))) 32768 8 1 32
       = Inr (map (\<lambda>i. 36 + of_nat i) [0..<32])
   \<and> Sha3 toy_crypto (drop 16 (map (\<lambda>i. 36 + of_nat i) [0..<32])
         @ DecodeBase58 toy_crypto (EncryptedKey toy_loaded)) \<noteq> DecodeBase58 toy_crypto (Mac toy_loaded)
   \<and> KeyPairInfo_Decrypt toy_crypto [1, 3] toy_loaded = (Some (Error ''wrong password''), toy_loaded)
   \<and> KeyPairInfo_Decrypt toy_crypto [9] (snd (KeyPairInfo_Encrypt toy_crypto toy_rnd [1, 2] toy_key))
       = (Some (Error ''wrong password''), snd (KeyPairInfo_Encrypt toy_crypto toy_rnd [1, 2] toy_key))"
proof -
  have h1: "KeyPairInfo_IsEncrypted toy_loaded"
    by (simp add: toy_simps)
  have h2: "48 \<le> length (DecodeBase58 toy_crypto (Salt toy_loaded))"
    by (simp add: toy_simps)
  have h3: "scrypt_Key toy_crypto [1, 3] (take 32 (DecodeBase58 toy_crypto (Salt toy_loaded))) 32768 8 1 32
       = Inr (map (\<lambda>i. 36 + of_nat i) [0..<32])"
    by code_simp
  have h4: "Sha3 toy_crypto (drop 16 (map (\<lambda>i. 36 + of_nat i) [0..<32])
         @ DecodeBase58 toy_crypto (EncryptedKey toy_loaded)) \<noteq> DecodeBase58 toy_crypto (Mac toy_loaded)"
    by code_simp
  have p: "KeyPairInfo_Decrypt toy_crypto [9] (snd (KeyPairInfo_Encrypt toy_crypto toy_rnd [1, 2] toy_key))
       = (Some (Error ''wrong password''), snd (KeyPairInfo_Encrypt toy_crypto toy_rnd [1, 2] toy_key))"
    by code_simp
  show ?thesis
    using Decrypt_wrong_password_unchanged [OF h1 h2 h3 h4] h1 h2 h3 h4 p by (intro conjI)
qed

section \<open>Decrypt with a short salt\<close>

text \<open>
  Claim C5 (malformed salt). The specification asks that \<^verbatim>\<open>Decrypt\<close> of a record whose
  salt decodes to fewer than 48 bytes returns an error for a malformed record, and does
  not crash.

  The code slices \<^verbatim>\<open>salt[0:32]\<close> and \<^verbatim>\<open>salt[32:48]\<close> without looking at the length of the
  decoded salt. For every encrypted record with fewer than 48 salt bytes and every
  password the call ends in the run-time panic of a slice expression; no error value is
  returned.
\<close>

theorem Decrypt_short_salt_panics:
  assumes "KeyPairInfo_IsEncrypted k"
    and "length (DecodeBase58 E (Salt k)) < 48"
  shows "KeyPairInfo_Decrypt E password k = (Some (Panic ''slice bounds out of range''), k)"
  using assms by (simp add: KeyPairInfo_Decrypt_def crypto_steps)

theorem Decrypt_short_salt_panics_witness:
  "KeyPairInfo_IsEncrypted (toy_loaded\<lparr>Salt := ''AAAA''\<rparr>)
   \<and> length (DecodeBase58 toy_crypto (Salt (toy_loaded\<lparr>Salt := ''AAAA''\<rparr>))) < 48
   \<and> KeyPairInfo_Decrypt toy_crypto [1, 2] (toy_loaded\<lparr>Salt := ''AAAA''\<rparr>)
       = (Some (Panic ''slice bounds out of range''), toy_loaded\<lparr>Salt := ''AAAA''\<rparr>)"
proof -
  have h1: "KeyPairInfo_IsEncrypted (toy_loaded\<lparr>Salt := ''AAAA''\<rparr>)"
    by (simp add: toy_simps)
  have h2: "length (DecodeBase58 toy_crypto (Salt (toy_loaded\<lparr>Salt := ''AAAA''\<rparr>))) < 48"
    by (simp add: toy_simps)
  show ?thesis
    using Decrypt_short_salt_panics [OF h1 h2] h1 h2 by (intro conjI)
qed

section \<open>State guards\<close>

text \<open>
  Claim C6 (state guards). On a plaintext record (one for which \<^verbatim>\<open>IsEncrypted\<close> is
  false, as for every record that \<^verbatim>\<open>NewKeyPairInfo\<close> returns, see
  \<open>NewKeyPairInfo_plain\<close>) the first \<^verbatim>\<open>Encrypt\<close> succeeds and a second \<^verbatim>\<open>Encrypt\<close> right
  after it returns the error \<^verbatim>\<open>already encrypted\<close> and changes nothing; \<^verbatim>\<open>Decrypt\<close> on
  the plaintext record returns the error \<^verbatim>\<open>not encrypted\<close> and changes nothing.
\<close>

theorem Encrypt_twice_and_Decrypt_plain:
  assumes "\<not> KeyPairInfo_IsEncrypted k"
  shows "fst (KeyPairInfo_Encrypt E rnd1 password1 k) = None
         \<and> KeyPairInfo_Encrypt E rnd2 password2 (snd (KeyPairInfo_Encrypt E rnd1 password1 k))
             = (Some (Error ''already encrypted''), snd (KeyPairInfo_Encrypt E rnd1 password1 k))
         \<and> KeyPairInfo_Decrypt E password k = (Some (Error ''not encrypted''), k)"
proof -
  have "KeyPairInfo_IsEncrypted (snd (KeyPairInfo_Encrypt E rnd1 password1 k))"
    using Encrypt_plain(2) [OF assms, of E rnd1 password1]
    by (simp add: KeyPairInfo_IsEncrypted_def)
  then show ?thesis
    using assms Encrypt_plain(1) [OF assms, of E rnd1 password1]
    by (simp add: Encrypt_encrypted KeyPairInfo_Decrypt_def)
qed

theorem Encrypt_twice_and_Decrypt_plain_witness:
  "NewKeyPairInfo toy_crypto ''id-1'' ''abc'' ''ed25519'' = Inr toy_key
   \<and> fst (KeyPairInfo_Encrypt toy_crypto toy_rnd [1, 2] toy_key) = None
   \<and> KeyPairInfo_Encrypt toy_crypto toy_rnd [1, 2] (snd (KeyPairInfo_Encrypt toy_crypto toy_rnd [1, 2] toy_key))
       = (Some (Error ''already encrypted''), snd (KeyPairInfo_Encrypt toy_crypto toy_rnd [1, 2] toy_key))
   \<and> KeyPairInfo_Decrypt toy_crypto [1, 2] toy_key = (Some (Error ''not encrypted''), toy_key)"
proof -
  have n: "NewKeyPairInfo toy_crypto ''id-1'' ''abc'' ''ed25519'' = Inr toy_key"
    by code_simp
  show ?thesis
    using Encrypt_twice_and_Decrypt_plain [OF NewKeyPairInfo_plain [OF n], of toy_crypto toy_rnd "[1, 2]" toy_rnd "[1, 2]" "[1, 2]"] n
    by (intro conjI) blast+
qed

section \<open>Empty inputs\<close>

text \<open>
  Claim C7 (empty input). The specification asks that an empty raw key and an empty
  password are both rejected.

  \<^verbatim>\<open>NewKeyPairInfo\<close> rejects the empty raw key. \<^verbatim>\<open>Encrypt\<close> never looks at the length
  of the password: with the empty password it encrypts the plaintext record \<open>toy_key\<close>
  as with any other.
\<close>

theorem Encrypt_empty_password_counterexample:
  "\<not> KeyPairInfo_IsEncrypted toy_key
   \<and> KeyPairInfo_Encrypt toy_crypto toy_rnd [] toy_key
       = (None, toy_key\<lparr>Salt := ''AAAAAAAAAAAAAAAAAAAAAAAAAAAAAAAA'' @ replicate 16 (CHR 0x00),
                        Mac := [CHR 0xC5, CHR 0x13], RawKey := []\<rparr>)"
  by code_simp

text \<open>
  Claim C7 as amended: creating a record from the empty raw key fails with the error
  \<^verbatim>\<open>empty key\<close> and returns no record; \<^verbatim>\<open>Encrypt\<close> with the empty password succeeds on
  every plaintext record and clears its raw key.
\<close>

theorem empty_raw_key_rejected_empty_password_accepted:
  "NewKeyPairInfo E uid [] keyType = Inl (Error ''empty key'')
   \<and> (\<not> KeyPairInfo_IsEncrypted k \<longrightarrow>
        fst (KeyPairInfo_Encrypt E rnd [] k) = None
        \<and> RawKey (snd (KeyPairInfo_Encrypt E rnd [] k)) = [])"
  by (simp add: NewKeyPairInfo_def Encrypt_plain)

theorem empty_raw_key_rejected_empty_password_accepted_witness:
  "NewKeyPairInfo toy_crypto ''id-1'' [] ''ed25519'' = Inl (Error ''empty key'')
   \<and> \<not> KeyPairInfo_IsEncrypted toy_key
   \<and> fst (KeyPairInfo_Encrypt toy_crypto toy_rnd [] toy_key) = None
   \<and> RawKey (snd (KeyPairInfo_Encrypt toy_crypto toy_rnd [] toy_key)) = []"
  using empty_raw_key_rejected_empty_password_accepted [of toy_crypto "''id-1''" "''ed25519''" toy_key toy_rnd]
    toy_key_plain
  by (intro conjI) blast+

section \<open>Fields that Encrypt and Decrypt do not touch\<close>

text \<open>
  Claim C10 (frame). Whatever \<^verbatim>\<open>Encrypt\<close> and \<^verbatim>\<open>Decrypt\<close> return, the identifier, the key
  type and the public key of the record are unchanged.
\<close>

theorem Encrypt_Decrypt_frame:
  "ID (snd (KeyPairInfo_Encrypt E rnd password k)) = ID k
   \<and> KeyType (snd (KeyPairInfo_Encrypt E rnd password k)) = KeyType k
   \<and> PubKey (snd (KeyPairInfo_Encrypt E rnd password k)) = PubKey k
   \<and> ID (snd (KeyPairInfo_Decrypt E password k)) = ID k
   \<and> KeyType (snd (KeyPairInfo_Decrypt E password k)) = KeyType k
   \<and> PubKey (snd (KeyPairInfo_Decrypt E password k)) = PubKey k"
  by (simp add: KeyPairInfo_Encrypt_def KeyPairInfo_Decrypt_def Let_def split: sum.splits)

theorem Encrypt_Decrypt_frame_witness:
  "ID (snd (KeyPairInfo_Encrypt toy_crypto toy_rnd [1, 2] toy_key)) = ''id-1''
   \<and> KeyType (snd (KeyPairInfo_Encrypt toy_crypto toy_rnd [1, 2] toy_key)) = ''ed25519''
   \<and> PubKey (snd (KeyPairInfo_Encrypt toy_crypto toy_rnd [1, 2] toy_key)) = ''id-1''
   \<and> ID (snd (KeyPairInfo_Decrypt toy_crypto [1, 2] toy_loaded)) = ''id-2''
   \<and> KeyType (snd (KeyPairInfo_Decrypt toy_crypto [1, 2] toy_loaded)) = ''ed25519''
   \<and> PubKey (snd (KeyPairInfo_Decrypt toy_crypto [1, 2] toy_loaded)) = ''pub''"
  using Encrypt_Decrypt_frame [of toy_crypto toy_rnd "[1, 2]" toy_key]
    Encrypt_Decrypt_frame [of toy_crypto _ "[1, 2]" toy_loaded]
  by (simp add: toy_key_def toy_loaded_def)

section \<open>Encrypting an account\<close>

lemma any_encrypted_iff:
  "any_encrypted kps \<longleftrightarrow> (\<exists>(label, kp) \<in> set kps. KeyPairInfo_IsEncrypted kp)"
  by (induction kps rule: any_encrypted.induct) auto

text \<open>
  Claim C8 (account batch). When one member of an account is encrypted,
  \<^verbatim>\<open>AccountInfo.Encrypt\<close> returns the error \<^verbatim>\<open>account already encrypted\<close> before it
  visits any member: the account is returned as it was, so every plaintext member still
  has its raw key and no encrypted fields. This holds for every order of the members.
\<close>

theorem Account_Encrypt_with_encrypted_member:
  assumes "(label, kp) \<in> set (Keypairs a)"
    and "KeyPairInfo_IsEncrypted kp"
  shows "AccountInfo_Encrypt E rnd password a = (Some (Error ''account already encrypted''), a)"
proof -
  have "AccountInfo_IsEncrypted a"
    using assms by (auto simp add: AccountInfo_IsEncrypted_def any_encrypted_iff)
  then show ?thesis
    by (simp add: AccountInfo_Encrypt_def)
qed

theorem Account_Encrypt_with_encrypted_member_witness:
  "(''owner'', toy_loaded) \<in> set (Keypairs toy_account)
   \<and> KeyPairInfo_IsEncrypted toy_loaded
   \<and> (''active'', toy_key) \<in> set (Keypairs toy_account)
   \<and> \<not> KeyPairInfo_IsEncrypted toy_key
   \<and> AccountInfo_Encrypt toy_crypto toy_rnd [1, 2] toy_account
       = (Some (Error ''account already encrypted''), toy_account)"
proof -
  have h1: "(''owner'', toy_loaded) \<in> set (Keypairs toy_account)"
    by (simp add: toy_account_def)
  have h2: "KeyPairInfo_IsEncrypted toy_loaded"
    by (simp add: toy_simps)
  have h3: "(''active'', toy_key) \<in> set (Keypairs toy_account)"
    by (simp add: toy_account_def)
  show ?thesis
    using Account_Encrypt_with_encrypted_member [OF h1 h2] h1 h2 h3 toy_key_plain
    by (intro conjI)
qed

section \<open>Saving over an existing account file\<close>

text \<open>The backup path is never the path of the account file: it is longer.\<close>

lemma backup_path_differs:
  "dir @ ''/backup'' @ ''/'' @ name @ ''.'' @ timeStr @ ''.json'' \<noteq> dir @ ''/'' @ name @ ''.json''"
proof
  assume "dir @ ''/backup'' @ ''/'' @ name @ ''.'' @ timeStr @ ''.json'' = dir @ ''/'' @ name @ ''.json''"
  then have "length (dir @ ''/backup'' @ ''/'' @ name @ ''.'' @ timeStr @ ''.json'')
             = length (dir @ ''/'' @ name @ ''.json'')"
    by (rule arg_cong)
  then show False by simp
qed

text \<open>
  Claim C9 (backup on overwrite). Let a file exist under the account's name, with
  content \<open>old\<close>. Whatever \<^verbatim>\<open>SaveAccount\<close> returns and whichever system call fails,
  afterwards \<open>old\<close> is the content of the account file or of the backup file, whose name
  carries the account name and the time stamp. When the save succeeds, \<open>old\<close> is in the
  backup file and the account file holds the new content. No path other than these two
  changes.
\<close>

theorem SaveAccount_backs_up_previous:
  assumes "fs (AccountDir s @ ''/'' @ Name a @ ''.json'') = Some old"
  shows "case SaveAccount s W a fs of (r, fs') \<Rightarrow>
           (fs' (AccountDir s @ ''/'' @ Name a @ ''.json'') = Some old
              \<or> fs' (AccountDir s @ ''/backup'' @ ''/'' @ Name a @ ''.'' @ Now W @ ''.json'') = Some old)
           \<and> (r = None \<longrightarrow>
                fs' (AccountDir s @ ''/backup'' @ ''/'' @ Name a @ ''.'' @ Now W @ ''.json'') = Some old
                \<and> (\<exists>data. MarshalIndent W a = Inr data
                      \<and> fs' (AccountDir s @ ''/'' @ Name a @ ''.json'') = Some data))
           \<and> (\<forall>path. path \<noteq> AccountDir s @ ''/'' @ Name a @ ''.json''
                \<and> path \<noteq> AccountDir s @ ''/backup'' @ ''/'' @ Name a @ ''.'' @ Now W @ ''.json''
                \<longrightarrow> fs' path = fs path)"
  using assms backup_path_differs [of "AccountDir s" "Name a" "Now W"]
  by (auto simp add: SaveAccount_def AccountInfo_SaveTo_def os_WriteFile_def os_Rename_def
      os_Stat_def os_MkdirAll_def os_IsNotExist_def ErrNotExist_def ErrPermission_def Let_def
      split: option.splits sum.splits)

theorem SaveAccount_backs_up_previous_witness:
  "toy_files (AccountDir toy_store @ ''/'' @ Name toy_account @ ''.json'') = Some ''old''
   \<and> fst (SaveAccount toy_store toy_os toy_account toy_files) = None
   \<and> snd (SaveAccount toy_store toy_os toy_account toy_files)
        ''/keys/backup/alice.2024-05-01T10:00:00Z.json'' = Some ''old''
   \<and> snd (SaveAccount toy_store toy_os toy_account toy_files)
        ''/keys/alice.json'' = Some ''{name: alice}''"
proof -
  have h: "toy_files (AccountDir toy_store @ ''/'' @ Name toy_account @ ''.json'') = Some ''old''"
    by (simp add: toy_files_def toy_store_def toy_account_def)
  have r: "fst (SaveAccount toy_store toy_os toy_account toy_files) = None"
    by (simp add: SaveAccount_def AccountInfo_SaveTo_def os_WriteFile_def os_Rename_def
      os_Stat_def os_MkdirAll_def os_IsNotExist_def ErrNotExist_def Let_def
      toy_files_def toy_store_def toy_account_def toy_os_def)
  have m: "MarshalIndent toy_os toy_account = Inr ''{name: alice}''"
    by (simp add: toy_os_def toy_account_def)
  show ?thesis
    using SaveAccount_backs_up_previous [of toy_files toy_store toy_account "''old''" toy_os] h r m
    by (simp add: case_prod_beta toy_store_def toy_account_def toy_os_def)
qed

end
